theory Spec2Isabelle
  imports Complex_Main "HOL-Library.AList"
begin

section \<open>Values read from a spreadsheet\<close>

text \<open>
  A cell of a workbook loaded by openpyxl with \<^verbatim>\<open>data_only=True\<close> carries a Python
  value. The model covers \<^verbatim>\<open>None\<close>, \<^verbatim>\<open>bool\<close>, \<^verbatim>\<open>int\<close> and \<^verbatim>\<open>str\<close>; floats and dates
  are outside of it.
\<close>

datatype pyval = PNone | PBool bool | PInt int | PStr string

text \<open>Python truthiness, the test behind \<^verbatim>\<open>if v:\<close>.\<close>

fun truthy :: "pyval \<Rightarrow> bool" where
  "truthy PNone = False"
| "truthy (PBool b) = b"
| "truthy (PInt i) = (i \<noteq> 0)"
| "truthy (PStr s) = (s \<noteq> [])"

text \<open>
  Python's \<^verbatim>\<open>==\<close> on these values: \<^verbatim>\<open>bool\<close> is a subclass of \<^verbatim>\<open>int\<close>, so
  \<^verbatim>\<open>True == 1\<close>; a number never equals a string or \<^verbatim>\<open>None\<close>. Equal values
  have equal hashes, so this is also the key comparison of a \<^verbatim>\<open>dict\<close>.
\<close>

fun num_of :: "pyval \<Rightarrow> int option" where
  "num_of (PBool b) = Some (if b then 1 else 0)"
| "num_of (PInt i) = Some i"
| "num_of PNone = None"
| "num_of (PStr s) = None"

definition py_eq :: "pyval \<Rightarrow> pyval \<Rightarrow> bool" where
  "py_eq a b =
     (case num_of a of
        Some x \<Rightarrow> (case num_of b of Some y \<Rightarrow> x = y | None \<Rightarrow> False)
      | None \<Rightarrow> (case num_of b of Some y \<Rightarrow> False | None \<Rightarrow> a = b))"

datatype py_exception =
  FileNotFoundError | KeyError | IndexError | ValueError | TypeError
  | NoSuchElementException | WebDriverException | OSError

section \<open>Query extractor\<close>

text \<open>
  A cell exposes its \<^verbatim>\<open>.value\<close>; a row is the tuple of cells that
  \<^verbatim>\<open>sheet.iter_rows()\<close> yields (an entry may be \<^verbatim>\<open>None\<close>, which the source
  tests for); a sheet is its rows from top to bottom. A workbook is its sheets in workbook
  order, each under its title: \<^verbatim>\<open>workbook.sheetnames\<close> lists the titles and
  \<^verbatim>\<open>workbook[name]\<close> returns the first sheet with that title, raising
  \<^verbatim>\<open>KeyError\<close> when there is none.
\<close>

datatype cell = Cell (cell_value: pyval)

type_synonym row = "cell option list"
type_synonym sheet = "row list"
type_synonym workbook = "(string \<times> sheet) list"

definition MAX_QUERIES :: nat where
  "MAX_QUERIES = 100"

definition sheetnames :: "workbook \<Rightarrow> string list" where
  "sheetnames wb = map fst wb"

definition workbook_getitem :: "workbook \<Rightarrow> string \<Rightarrow> py_exception + sheet" where
  "workbook_getitem wb name =
     (case map_of wb name of None \<Rightarrow> Inl KeyError | Some sh \<Rightarrow> Inr sh)"

text \<open>
  The test \<^verbatim>\<open>row and row[0] is not None and row[0].value\<close> of line 73.
\<close>

fun first_cell_not_empty :: "row \<Rightarrow> bool" where
  "first_cell_not_empty [] = False"
| "first_cell_not_empty (None # cs) = False"
| "first_cell_not_empty (Some c # cs) = truthy (cell_value c)"

text \<open>\<^verbatim>\<open>row[0].value\<close>, read only where the test above has passed.\<close>

fun first_value :: "row \<Rightarrow> pyval" where
  "first_value (Some c # cs) = cell_value c"
| "first_value cs = PNone"

text \<open>The inner loop (lines 72 to 74): \<^verbatim>\<open>queries\<close> is the accumulator.\<close>

fun collect_rows :: "row list \<Rightarrow> pyval list \<Rightarrow> pyval list" where
  "collect_rows [] queries = queries"
| "collect_rows (r # rs) queries =
     (if first_cell_not_empty r then collect_rows rs (queries @ [first_value r])
      else collect_rows rs queries)"

text \<open>The outer loop (lines 69 to 74) over \<^verbatim>\<open>workbook.sheetnames\<close>.\<close>

fun collect_sheets :: "workbook \<Rightarrow> string list \<Rightarrow> pyval list \<Rightarrow> py_exception + pyval list" where
  "collect_sheets wb [] queries = Inr queries"
| "collect_sheets wb (sheetname # names) queries =
     (case workbook_getitem wb sheetname of
        Inl e \<Rightarrow> Inl e
      | Inr sh \<Rightarrow> collect_sheets wb names (collect_rows sh queries))"

text \<open>Lines 75 and 76: the header is removed once, from the whole sequence.\<close>

fun remove_header :: "pyval list \<Rightarrow> pyval list" where
  "remove_header [] = []"
| "remove_header (q # qs) = (if py_eq q (PStr ''Agent Name'') then qs else q # qs)"

text \<open>
  The argument is what \<^verbatim>\<open>open_workbook_in_memory(input_file_path)\<close> gives: the
  workbook, or the exception that reading or loading the file raised.
\<close>

definition parse_queries_from_xlsx_file :: "py_exception + workbook \<Rightarrow> py_exception + pyval list" where
  "parse_queries_from_xlsx_file opened =
     (case opened of
        Inl e \<Rightarrow> Inl e
      | Inr wb \<Rightarrow>
          (case collect_sheets wb (sheetnames wb) [] of
             Inl e \<Rightarrow> Inl e
           | Inr queries \<Rightarrow> Inr (remove_header queries)))"

text \<open>Lines 134 and 135 of \<^verbatim>\<open>main\<close>: extraction, then \<^verbatim>\<open>queries[:MAX_QUERIES]\<close>.\<close>

definition extract_queries :: "py_exception + workbook \<Rightarrow> py_exception + pyval list" where
  "extract_queries opened =
     (case parse_queries_from_xlsx_file opened of
        Inl e \<Rightarrow> Inl e
      | Inr queries \<Rightarrow> Inr (take MAX_QUERIES queries))"

subsection \<open>The specification's reading of the extractor\<close>

text \<open>
  The specification calls a first-column value non-empty when it is neither null nor the
  empty string. These definitions follow its words and are compared with the code's.
\<close>

fun spec_non_empty :: "pyval \<Rightarrow> bool" where
  "spec_non_empty PNone = False"
| "spec_non_empty (PStr s) = (s \<noteq> [])"
| "spec_non_empty v = True"

fun spec_row_non_empty :: "row \<Rightarrow> bool" where
  "spec_row_non_empty (Some c # cs) = spec_non_empty (cell_value c)"
| "spec_row_non_empty cs = False"

definition spec_non_empty_values :: "workbook \<Rightarrow> pyval list" where
  "spec_non_empty_values wb =
     concat (map (\<lambda>(name, sh). map first_value (filter spec_row_non_empty sh)) wb)"

definition spec_total_non_empty :: "workbook \<Rightarrow> nat" where
  "spec_total_non_empty wb = length (spec_non_empty_values wb)"

definition spec_header_present :: "workbook \<Rightarrow> bool" where
  "spec_header_present wb =
     (case spec_non_empty_values wb of [] \<Rightarrow> False | v # vs \<Rightarrow> v = PStr ''Agent Name'')"

text \<open>
  A first-column value that is not empty and that Python still takes for false: the
  number zero and \<^verbatim>\<open>False\<close>.
\<close>

definition zero_like :: "pyval \<Rightarrow> bool" where
  "zero_like v = (spec_non_empty v \<and> \<not> truthy v)"

definition no_zero_like :: "workbook \<Rightarrow> bool" where
  "no_zero_like wb =
     list_all (\<lambda>(name, sh). list_all (\<lambda>r. \<not> zero_like (first_value r)) sh) wb"

section \<open>Browser session, pacing and log\<close>

text \<open>
  The browser is an external collaborator. Its state is an abstract type \<open>'b\<close>, and
  each primitive the script calls is a function of that state that returns the new state
  with either a value or the exception it raised. The script's own view of a run is the
  sequence of calls it made to the browser and to the clock, and the log it wrote.
\<close>

type_synonym element = nat

record 'b webdriver =
  drv_get :: "string \<Rightarrow> 'b \<Rightarrow> (py_exception + unit) \<times> 'b"
  drv_find_element :: "string \<Rightarrow> 'b \<Rightarrow> (py_exception + element) \<times> 'b"
  drv_current_url :: "'b \<Rightarrow> (py_exception + string) \<times> 'b"
  el_clear :: "element \<Rightarrow> 'b \<Rightarrow> (py_exception + unit) \<times> 'b"
  el_send_keys :: "element \<Rightarrow> pyval \<Rightarrow> 'b \<Rightarrow> (py_exception + unit) \<times> 'b"
  el_submit :: "element \<Rightarrow> 'b \<Rightarrow> (py_exception + unit) \<times> 'b"
  el_text :: "element \<Rightarrow> 'b \<Rightarrow> (py_exception + string) \<times> 'b"

datatype interaction =
  Get string
  | FindElement string
  | Clear element
  | SendKeys element pyval
  | Submit element
  | CurrentUrl
  | Text element
  | Sleep rat rat

type_synonym search_results = "(string \<times> pyval) list"

datatype log_entry =
  LogException py_exception
  | DebugNoReviewElements pyval
  | DebugUsingCached search_results
  | DebugParsedResults search_results
  | InfoParsed nat

record 'b world =
  browser :: 'b
  interactions :: "interaction list"
  logged :: "log_entry list"
  outfile :: "pyval list list"

type_synonym ('a, 'b) action = "'b world \<Rightarrow> (py_exception + 'a) \<times> 'b world"

text \<open>Sequencing: an exception skips the rest of the block.\<close>

definition bind :: "('a, 'b) action \<Rightarrow> ('a \<Rightarrow> ('c, 'b) action) \<Rightarrow> ('c, 'b) action" where
  "bind m f w = (case m w of (Inl e, w') \<Rightarrow> (Inl e, w') | (Inr a, w') \<Rightarrow> f a w')"

text \<open>A call of a browser primitive, recorded whether it raises or not.\<close>

definition call :: "interaction \<Rightarrow> ('b \<Rightarrow> (py_exception + 'a) \<times> 'b) \<Rightarrow> ('a, 'b) action" where
  "call i f w =
     (case f (browser w) of
        (r, b) \<Rightarrow> (r, w\<lparr>browser := b, interactions := interactions w @ [i]\<rparr>))"

text \<open>\<^verbatim>\<open>time.sleep(random.uniform(lo, hi))\<close>: only the bounds are recorded.\<close>

definition sleep_uniform :: "rat \<Rightarrow> rat \<Rightarrow> (unit, 'b) action" where
  "sleep_uniform lo hi w = (Inr (), w\<lparr>interactions := interactions w @ [Sleep lo hi]\<rparr>)"

definition add_log :: "log_entry \<Rightarrow> 'b world \<Rightarrow> 'b world" where
  "add_log l w = w\<lparr>logged := logged w @ [l]\<rparr>"

section \<open>Result extractor\<close>

definition search_field_xpath :: string where
  \<open>search_field_xpath = ''//input[@name="q"]''\<close>

definition star_score_xpath :: string where
  \<open>star_score_xpath = ''//div[contains(@data-attrid, "star_score")]//span''\<close>

definition reviews_xpath :: string where
  \<open>reviews_xpath = ''//a[contains(@data-sort_by, "qualityScore")]''\<close>

text \<open>
  Python's \<^verbatim>\<open>str.replace(old, new)\<close>: the occurrences of \<open>old\<close> are replaced from
  left to right without overlap; an empty \<open>old\<close> matches before every character and at
  the end.
\<close>

function str_replace :: "string \<Rightarrow> string \<Rightarrow> string \<Rightarrow> string" where
  "str_replace old new s =
     (if old = [] then new @ concat (map (\<lambda>c. c # new) s)
      else if s = [] then []
      else if take (length old) s = old
        then new @ str_replace old new (drop (length old) s)
      else hd s # str_replace old new (tl s))"
  by pat_completeness auto
termination
  by (relation "measure (\<lambda>(old, new, s). length s)") auto

declare str_replace.simps [simp del]

text \<open>
  Python's \<^verbatim>\<open>str.split(sep)\<close> for a separator of one character: the text is cut at
  every occurrence of it, and the result is never the empty list.
\<close>

fun str_split :: "char \<Rightarrow> string \<Rightarrow> string list" where
  "str_split sep [] = [[]]"
| "str_split sep (c # cs) =
     (if c = sep then [] # str_split sep cs
      else (case str_split sep cs of
              [] \<Rightarrow> [[c]]
            | tok # toks \<Rightarrow> (c # tok) # toks))"

text \<open>
  The specification's reading of the review count: the leading token of the text, delimited
  by whitespace (space, tab, line feed, vertical tab, form feed, carriage return).
\<close>

definition is_whitespace :: "char \<Rightarrow> bool" where
  "is_whitespace c = (c \<in> set [CHR '' '', CHR 0x09, CHR 0x0A, CHR 0x0B, CHR 0x0C, CHR 0x0D])"

definition spec_leading_token :: "string \<Rightarrow> string" where
  "spec_leading_token text = takeWhile (\<lambda>c. \<not> is_whitespace c) text"

text \<open>Lines 80 to 85.\<close>

definition search_query_on_google :: "'b webdriver \<Rightarrow> pyval \<Rightarrow> (unit, 'b) action" where
  "search_query_on_google drv query =
     bind (call (FindElement search_field_xpath) (drv_find_element drv search_field_xpath))
       (\<lambda>search_field.
     bind (call (Clear search_field) (el_clear drv search_field))
       (\<lambda>_.
     bind (call (SendKeys search_field query) (el_send_keys drv search_field query))
       (\<lambda>_.
     bind (sleep_uniform 0.2 2)
       (\<lambda>_.
     call (Submit search_field) (el_submit drv search_field)))))"

text \<open>Lines 88 to 90.\<close>

definition parse_star_score :: "'b webdriver \<Rightarrow> (string, 'b) action" where
  "parse_star_score drv =
     bind (call (FindElement star_score_xpath) (drv_find_element drv star_score_xpath))
       (\<lambda>el.
     bind (call (Text el) (el_text drv el))
       (\<lambda>text. Pair (Inr (str_replace '','' ''.'' text))))"

text \<open>Lines 93 to 95; \<^verbatim>\<open>[0]\<close> raises on an empty list.\<close>

definition parse_number_of_reviews :: "'b webdriver \<Rightarrow> (string, 'b) action" where
  "parse_number_of_reviews drv =
     bind (call (FindElement reviews_xpath) (drv_find_element drv reviews_xpath))
       (\<lambda>el.
     bind (call (Text el) (el_text drv el))
       (\<lambda>text. Pair (case str_split CHR '' '' text of
                       [] \<Rightarrow> Inl IndexError
                     | tok # toks \<Rightarrow> Inr tok)))"

text \<open>
  The handlers of lines 111 to 114: a missing element is logged at debug level, any other
  exception at exception level; neither is raised again.
\<close>

definition except_extraction :: "pyval \<Rightarrow> py_exception \<Rightarrow> 'b world \<Rightarrow> 'b world" where
  "except_extraction query e w =
     (if e = NoSuchElementException then add_log (DebugNoReviewElements query) w
      else add_log (LogException e) w)"

text \<open>
  Lines 98 to 115. \<^verbatim>\<open>search_results\<close> is a dictionary with string keys, kept as an
  association list; \<^verbatim>\<open>d[k] = v\<close> is \<^const>\<open>AList.update\<close>.
\<close>

definition parse_search_results :: "'b webdriver \<Rightarrow> pyval \<Rightarrow> 'b world \<Rightarrow> search_results \<times> 'b world" where
  "parse_search_results drv query w0 =
     (let search_results = AList.update ''query'' query [] in
      case bind (search_query_on_google drv query)
             (\<lambda>_. call CurrentUrl (drv_current_url drv)) w0 of
        (Inl e, w1) \<Rightarrow> (search_results, add_log (LogException e) w1)
      | (Inr url, w1) \<Rightarrow>
          (let search_results = AList.update ''url'' (PStr url) search_results in
           case parse_star_score drv w1 of
             (Inl e, w2) \<Rightarrow> (search_results, except_extraction query e w2)
           | (Inr star_score, w2) \<Rightarrow>
               (let search_results = AList.update ''star_score'' (PStr star_score) search_results in
                case parse_number_of_reviews drv w2 of
                  (Inl e, w3) \<Rightarrow> (search_results, except_extraction query e w3)
                | (Inr reviews_count, w3) \<Rightarrow>
                    (AList.update ''reviews_count'' (PStr reviews_count) search_results, w3))))"

section \<open>Report sink\<close>

text \<open>
  \<^verbatim>\<open>csv.DictWriter(outfile, fieldnames, dialect='excel', delimiter=';')\<close> of the
  standard library. \<^verbatim>\<open>writerow(d)\<close> raises \<^verbatim>\<open>ValueError\<close> when \<open>d\<close> has a key
  that is no field name (\<^verbatim>\<open>extrasaction='raise'\<close>) and otherwise hands the values to
  the underlying writer in the order of the field names, a missing key giving the empty
  string (\<^verbatim>\<open>restval=''\<close>). The file is the list of rows handed over so far; writing
  to the opened file is taken to succeed.
\<close>

definition fieldnames :: "string list" where
  "fieldnames = [''query'', ''star_score'', ''reviews_count'', ''url'']"

text \<open>\<^verbatim>\<open>d.get(key, default)\<close>.\<close>

definition dict_get :: "search_results \<Rightarrow> string \<Rightarrow> pyval \<Rightarrow> pyval" where
  "dict_get d key restval = (case map_of d key of None \<Rightarrow> restval | Some v \<Rightarrow> v)"

definition dict_to_list :: "search_results \<Rightarrow> py_exception + pyval list" where
  "dict_to_list rowdict =
     (let wrong_fields = filter (\<lambda>k. k \<notin> set fieldnames) (map fst rowdict) in
      if wrong_fields \<noteq> [] then Inl ValueError
      else Inr (map (\<lambda>key. dict_get rowdict key (PStr [])) fieldnames))"

definition writerow :: "search_results \<Rightarrow> (unit, 'b) action" where
  "writerow rowdict w =
     (case dict_to_list rowdict of
        Inl e \<Rightarrow> (Inl e, w)
      | Inr vals \<Rightarrow> (Inr (), w\<lparr>outfile := outfile w @ [vals]\<rparr>))"

text \<open>\<^verbatim>\<open>writeheader()\<close> writes the row \<^verbatim>\<open>dict(zip(fieldnames, fieldnames))\<close>.\<close>

definition writeheader :: "(unit, 'b) action" where
  "writeheader = writerow (map (\<lambda>k. (k, PStr k)) fieldnames)"

subsection \<open>The text of a row\<close>

text \<open>Python's \<^verbatim>\<open>str\<close> of an integer.\<close>

definition digit_char :: "nat \<Rightarrow> char" where
  "digit_char d = ''0123456789'' ! d"

fun str_of_nat :: "nat \<Rightarrow> string" where
  "str_of_nat n =
     (if n < 10 then [digit_char n] else str_of_nat (n div 10) @ [digit_char (n mod 10)])"

declare str_of_nat.simps [simp del]

definition str_of_int :: "int \<Rightarrow> string" where
  "str_of_int i = (if i < 0 then CHR ''-'' # str_of_nat (nat (- i)) else str_of_nat (nat i))"

text \<open>
  The writer turns \<^verbatim>\<open>None\<close> into the empty string, leaves a string as it is and
  applies \<^verbatim>\<open>str\<close> to anything else.
\<close>

fun csv_field_text :: "pyval \<Rightarrow> string" where
  "csv_field_text PNone = []"
| "csv_field_text (PStr s) = s"
| "csv_field_text (PBool b) = (if b then ''True'' else ''False'')"
| "csv_field_text (PInt i) = str_of_int i"

text \<open>
  Minimal quoting of the excel dialect with delimiter \<^verbatim>\<open>;\<close>: a field with a
  semicolon, a double quote, a carriage return or a line feed is enclosed in double quotes,
  with every double quote inside doubled. A row ends with carriage return and line feed; a
  row of one empty field is written as two double quotes.
\<close>

definition needs_quotes :: "string \<Rightarrow> bool" where
  "needs_quotes s = list_ex (\<lambda>c. c \<in> set [CHR 0x3B, CHR 0x22, CHR 0x0D, CHR 0x0A]) s"

definition csv_quote :: "string \<Rightarrow> string" where
  "csv_quote s =
     (if needs_quotes s
      then [CHR 0x22] @ concat (map (\<lambda>c. if c = CHR 0x22 then [c, c] else [c]) s) @ [CHR 0x22]
      else s)"

fun join :: "string \<Rightarrow> string list \<Rightarrow> string" where
  "join sep [] = []"
| "join sep [x] = x"
| "join sep (x # y # ys) = x @ sep @ join sep (y # ys)"

definition csv_row_text :: "pyval list \<Rightarrow> string" where
  "csv_row_text vals =
     (let line = join '';'' (map (\<lambda>v. csv_quote (csv_field_text v)) vals) in
      (if vals \<noteq> [] \<and> line = [] then [CHR 0x22, CHR 0x22] else line)
        @ [CHR 0x0D, CHR 0x0A])"

definition file_text :: "pyval list list \<Rightarrow> string" where
  "file_text rows = concat (map csv_row_text rows)"

section \<open>Scrape orchestrator\<close>

text \<open>
  \<^verbatim>\<open>seen_search_results\<close> is a dictionary keyed by the query. A key is found when it
  compares equal to the one looked up; a new key goes to the end, an existing key keeps its
  place and gets the new value.
\<close>

type_synonym result_cache = "(pyval \<times> search_results) list"

fun dict_lookup :: "result_cache \<Rightarrow> pyval \<Rightarrow> search_results option" where
  "dict_lookup [] k = None"
| "dict_lookup ((k', v) # d) k = (if py_eq k' k then Some v else dict_lookup d k)"

fun dict_store :: "result_cache \<Rightarrow> pyval \<Rightarrow> search_results \<Rightarrow> result_cache" where
  "dict_store [] k v = [(k, v)]"
| "dict_store ((k', v') # d) k v =
     (if py_eq k' k then (k', v) # d else (k', v') # dict_store d k v)"

text \<open>The body of the loop, lines 151 to 159.\<close>

definition process_query :: "'b webdriver \<Rightarrow> result_cache \<Rightarrow> pyval \<Rightarrow> (result_cache, 'b) action" where
  "process_query drv seen_search_results query w =
     (case dict_lookup seen_search_results query of
        Some search_results \<Rightarrow>
          bind (writerow search_results) (\<lambda>_. Pair (Inr seen_search_results))
            (add_log (DebugUsingCached search_results) w)
      | None \<Rightarrow>
          bind (sleep_uniform 3 5)
            (\<lambda>_ w1.
               case parse_search_results drv query w1 of
                 (search_results, w2) \<Rightarrow>
                   bind (writerow search_results)
                     (\<lambda>_. Pair (Inr (dict_store seen_search_results query search_results)))
                     (add_log (DebugParsedResults search_results) w2)) w)"

text \<open>The loop of line 150; an exception leaves it.\<close>

fun run_queries :: "'b webdriver \<Rightarrow> result_cache \<Rightarrow> pyval list \<Rightarrow> (result_cache, 'b) action" where
  "run_queries drv seen [] w = (Inr seen, w)"
| "run_queries drv seen (query # queries) w =
     (case process_query drv seen query w of
        (Inl e, w') \<Rightarrow> (Inl e, w')
      | (Inr seen', w') \<Rightarrow> run_queries drv seen' queries w')"

text \<open>
  What a run depends on besides the browser: whether the input path is a file, whether the
  browser session starts (and in which state), what loading the workbook gives, and whether
  the output file can be opened for writing.
\<close>

record 'b environment =
  input_is_file :: bool
  create_webdriver :: "py_exception + 'b"
  open_workbook_in_memory :: "py_exception + workbook"
  open_output_file :: "py_exception + unit"

text \<open>
  What a run leaves behind: the exit status of the process, the exception that escaped (if
  one did), the rows of the output file (\<open>None\<close> when the file was never opened), the calls
  made and the log written.
\<close>

record outcome =
  exit_status :: nat
  escaped :: "py_exception option"
  output_file :: "pyval list list option"
  run_interactions :: "interaction list"
  run_log :: "log_entry list"

text \<open>The first guarded block of \<^verbatim>\<open>main\<close>, lines 132 to 135.\<close>

definition prepare :: "'b environment \<Rightarrow> py_exception + 'b \<times> pyval list" where
  "prepare env =
     (case create_webdriver env of
        Inl e \<Rightarrow> Inl e
      | Inr driver \<Rightarrow>
          (case extract_queries (open_workbook_in_memory env) of
             Inl e \<Rightarrow> Inl e
           | Inr queries \<Rightarrow> Inr (driver, queries)))"

text \<open>The body of the \<^verbatim>\<open>with\<close> block, lines 144 to 159.\<close>

definition write_report :: "'b webdriver \<Rightarrow> pyval list \<Rightarrow> (result_cache, 'b) action" where
  "write_report drv queries =
     bind writeheader
       (\<lambda>_.
     bind (call (Get ''https://google.com'') (drv_get drv ''https://google.com''))
       (\<lambda>_. run_queries drv [] queries))"

text \<open>
  Lines 118 to 162. An exception caught by one of the two handlers is logged and the
  process exits with status 1; the missing input file raises \<^verbatim>\<open>FileNotFoundError\<close>
  past every handler, which also ends the process with status 1.
\<close>

definition main :: "'b webdriver \<Rightarrow> 'b environment \<Rightarrow> outcome" where
  "main drv env =
     (if \<not> input_is_file env then
        \<lparr>exit_status = 1, escaped = Some FileNotFoundError, output_file = None,
         run_interactions = [], run_log = []\<rparr>
      else
        (case prepare env of
           Inl e \<Rightarrow>
             \<lparr>exit_status = 1, escaped = None, output_file = None,
              run_interactions = [], run_log = [LogException e]\<rparr>
         | Inr (driver, queries) \<Rightarrow>
             (case open_output_file env of
                Inl e \<Rightarrow>
                  \<lparr>exit_status = 1, escaped = None, output_file = None,
                   run_interactions = [],
                   run_log = [InfoParsed (length queries), LogException e]\<rparr>
              | Inr _ \<Rightarrow>
                  (case write_report drv queries
                          \<lparr>browser = driver, interactions = [],
                           logged = [InfoParsed (length queries)], outfile = []\<rparr> of
                     (Inl e, w) \<Rightarrow>
                       \<lparr>exit_status = 1, escaped = None, output_file = Some (outfile w),
                        run_interactions = interactions w,
                        run_log = logged w @ [LogException e]\<rparr>
                   | (Inr _, w) \<Rightarrow>
                       \<lparr>exit_status = 0, escaped = None, output_file = Some (outfile w),
                        run_interactions = interactions w, run_log = logged w\<rparr>))))"

subsection \<open>Notions used to state the properties of a run\<close>

text \<open>The row that a result record gives, in the order of the field names.\<close>

definition row_of :: "search_results \<Rightarrow> pyval list" where
  "row_of sr = map (\<lambda>key. dict_get sr key (PStr [])) fieldnames"

text \<open>
  A cache as the loop builds it: every stored record has field names for keys only, and its
  query is the key it is stored under.
\<close>

definition cache_ok :: "result_cache \<Rightarrow> bool" where
  "cache_ok seen =
     list_all (\<lambda>(k, sr). list_all (\<lambda>f. f \<in> set fieldnames) (map fst sr)
                 \<and> map_of sr ''query'' = Some k) seen"

definition cached_row :: "result_cache \<Rightarrow> pyval \<Rightarrow> pyval list" where
  "cached_row seen q = (case dict_lookup seen q of None \<Rightarrow> [] | Some sr \<Rightarrow> row_of sr)"

text \<open>An action that writes nothing to the output file.\<close>

definition keeps_outfile :: "('a, 'b) action \<Rightarrow> bool" where
  "keeps_outfile m = (\<forall>w. outfile (snd (m w)) = outfile w)"

definition is_text :: "pyval \<Rightarrow> bool" where
  "is_text v = (case v of PStr s \<Rightarrow> True | _ \<Rightarrow> False)"

section \<open>Concrete inputs\<close>

text \<open>
  A small browser to run the definitions on. Its state is the page shown: the address, the
  text typed into the search field, and the texts of the rating and review-count elements
  where the page has them. Submitting the search field loads the page that a given site
  answers for the typed text; typing anything but a string raises \<^verbatim>\<open>TypeError\<close>.
  Element 0 is the search field, 1 the rating, 2 the review count.
\<close>

record page =
  page_url :: string
  has_search_field :: bool
  typed :: string
  star_text :: "string option"
  reviews_text :: "string option"

definition fake_find :: "string \<Rightarrow> page \<Rightarrow> py_exception + element" where
  "fake_find xpath p =
     (if xpath = search_field_xpath then
        (if has_search_field p then Inr 0 else Inl NoSuchElementException)
      else if xpath = star_score_xpath then
        (case star_text p of None \<Rightarrow> Inl NoSuchElementException | Some t \<Rightarrow> Inr 1)
      else if xpath = reviews_xpath then
        (case reviews_text p of None \<Rightarrow> Inl NoSuchElementException | Some t \<Rightarrow> Inr 2)
      else Inl NoSuchElementException)"

definition fake_text :: "element \<Rightarrow> page \<Rightarrow> py_exception + string" where
  "fake_text el p =
     (if el = 1 then (case star_text p of None \<Rightarrow> Inl WebDriverException | Some t \<Rightarrow> Inr t)
      else if el = 2 then
        (case reviews_text p of None \<Rightarrow> Inl WebDriverException | Some t \<Rightarrow> Inr t)
      else Inr [])"

definition fake_driver :: "(string \<Rightarrow> page) \<Rightarrow> page webdriver" where
  "fake_driver site =
     \<lparr>drv_get = (\<lambda>url p. (Inr (),
         \<lparr>page_url = url, has_search_field = True, typed = [],
          star_text = None, reviews_text = None\<rparr>)),
      drv_find_element = (\<lambda>xpath p. (fake_find xpath p, p)),
      drv_current_url = (\<lambda>p. (Inr (page_url p), p)),
      el_clear = (\<lambda>el p. (Inr (), p\<lparr>typed := []\<rparr>)),
      el_send_keys = (\<lambda>el v p.
         case v of PStr s \<Rightarrow> (Inr (), p\<lparr>typed := typed p @ s\<rparr>) | _ \<Rightarrow> (Inl TypeError, p)),
      el_submit = (\<lambda>el p. (Inr (), site (typed p))),
      el_text = (\<lambda>el p. (fake_text el p, p))\<rparr>"

definition result_page :: "string \<Rightarrow> string option \<Rightarrow> string option \<Rightarrow> page" where
  "result_page q star reviews =
     \<lparr>page_url = ''https://www.google.com/search?q='' @ q, has_search_field = True,
      typed = q, star_text = star, reviews_text = reviews\<rparr>"

definition demo_site :: "string \<Rightarrow> page" where
  "demo_site q =
     (if q = ''Acme Corp'' then result_page q (Some ''4,5'') (Some ''1,234 reviews'')
      else if q = ''Beta LLC'' then result_page q (Some ''4.5'') None
      else if q = ''Gamma'' then
        result_page q (Some ''1,234'') (Some (''1,234'' @ [CHR 0x0A] @ ''reviews''))
      else result_page q None None)"

definition start_page :: page where
  "start_page =
     \<lparr>page_url = ''about:blank'', has_search_field = False, typed = [],
      star_text = None, reviews_text = None\<rparr>"

definition home_page :: page where
  "home_page =
     \<lparr>page_url = ''https://google.com'', has_search_field = True, typed = [],
      star_text = None, reviews_text = None\<rparr>"

definition world_at :: "page \<Rightarrow> page world" where
  "world_at p = \<lparr>browser = p, interactions = [], logged = [], outfile = []\<rparr>"

definition text_cell :: "string \<Rightarrow> row" where
  "text_cell s = [Some (Cell (PStr s))]"

definition workbook_101 :: workbook where
  "workbook_101 = [(''Sheet1'', text_cell ''Agent Name'' # replicate 100 (text_cell ''Acme Corp''))]"

definition workbook_scenario :: workbook where
  "workbook_scenario =
     [(''Sheet1'', [text_cell ''Agent Name'', text_cell ''Acme Corp'', text_cell [],
                    text_cell ''Acme Corp'', text_cell ''Beta LLC''])]"

definition workbook_header_only :: workbook where
  "workbook_header_only = [(''Sheet1'', [text_cell ''Agent Name'', [Some (Cell PNone)], []])]"

definition workbook_zero :: workbook where
  "workbook_zero = [(''Sheet1'', [[Some (Cell (PInt 0))]])]"

definition demo_environment :: "workbook \<Rightarrow> page environment" where
  "demo_environment wb =
     \<lparr>input_is_file = True, create_webdriver = Inr start_page,
      open_workbook_in_memory = Inr wb, open_output_file = Inr ()\<rparr>"

section \<open>Properties of the query extractor\<close>

lemma collect_rows_eq:
  "collect_rows rs queries = queries @ map first_value (filter first_cell_not_empty rs)"
  by (induction rs arbitrary: queries) auto

lemma collect_sheets_eq:
  "(\<And>name sh. (name, sh) \<in> set ps \<Longrightarrow> map_of wb name = Some sh) \<Longrightarrow>
   collect_sheets wb (map fst ps) queries =
     Inr (queries @ concat (map (\<lambda>(name, sh). map first_value (filter first_cell_not_empty sh)) ps))"
proof (induction ps arbitrary: queries)
  case Nil
  then show ?case by simp
next
  case (Cons p ps)
  obtain name sh where p: "p = (name, sh)" by (cases p)
  have look: "workbook_getitem wb name = Inr sh"
    using Cons.prems [of name sh] by (simp add: p workbook_getitem_def)
  have rest: "\<And>name sh. (name, sh) \<in> set ps \<Longrightarrow> map_of wb name = Some sh"
    using Cons.prems by simp
  show ?case
    by (simp add: p look Cons.IH [OF rest] collect_rows_eq)
qed

lemma truthy_spec_non_empty: "truthy v \<Longrightarrow> spec_non_empty v"
  by (cases v) auto

lemma row_tests_agree:
  "\<not> zero_like (first_value r) \<Longrightarrow> first_cell_not_empty r = spec_row_non_empty r"
  by (induction r rule: first_cell_not_empty.induct)
     (auto simp: zero_like_def dest: truthy_spec_non_empty)

lemma py_eq_PStr: "py_eq v (PStr s) = (v = PStr s)"
  by (cases v) (auto simp: py_eq_def)

lemma length_remove_header:
  "length (remove_header qs) =
     length qs - (case qs of [] \<Rightarrow> 0 | q # r \<Rightarrow> if q = PStr ''Agent Name'' then 1 else 0)"
  by (cases qs) (auto simp: py_eq_PStr)

lemma collected_eq_spec:
  assumes "no_zero_like wb"
  shows "concat (map (\<lambda>(name, sh). map first_value (filter first_cell_not_empty sh)) wb)
         = spec_non_empty_values wb"
proof -
  have "\<And>name sh. (name, sh) \<in> set wb \<Longrightarrow>
          filter first_cell_not_empty sh = filter spec_row_non_empty sh"
  proof -
    fix name sh assume "(name, sh) \<in> set wb"
    with assms have "list_all (\<lambda>r. \<not> zero_like (first_value r)) sh"
      by (auto simp: no_zero_like_def list_all_iff)
    then show "filter first_cell_not_empty sh = filter spec_row_non_empty sh"
      by (intro filter_cong) (auto simp: list_all_iff row_tests_agree)
  qed
  then have "map (\<lambda>(name, sh). map first_value (filter first_cell_not_empty sh)) wb
           = map (\<lambda>(name, sh). map first_value (filter spec_row_non_empty sh)) wb"
    by (intro map_cong [OF refl]) auto
  then show ?thesis
    unfolding spec_non_empty_values_def by (rule arg_cong [where f = concat])
qed

lemma parse_queries_eq:
  assumes "distinct (map fst wb)"
  shows "parse_queries_from_xlsx_file (Inr wb) =
     Inr (remove_header (concat (map (\<lambda>(name, sh). map first_value (filter first_cell_not_empty sh)) wb)))"
proof -
  have "\<And>name sh. (name, sh) \<in> set wb \<Longrightarrow> map_of wb name = Some sh"
    using assms by simp
  then have "collect_sheets wb (map fst wb) [] =
     Inr ([] @ concat (map (\<lambda>(name, sh). map first_value (filter first_cell_not_empty sh)) wb))"
    by (rule collect_sheets_eq)
  then show ?thesis
    by (simp add: parse_queries_from_xlsx_file_def sheetnames_def)
qed

text \<open>
  Claim C1, as the code has it. For a workbook whose sheet titles are distinct, extraction
  and truncation return a list of at most \<open>MAX_QUERIES\<close> queries. Where no first-column
  cell holds a zero-like value, its length is the minimum of 100 and the number of
  non-empty first-column cells less the header (one when the first of these values is
  exactly \<^verbatim>\<open>Agent Name\<close>, none otherwise): the header is taken off before the list is cut
  to 100, not after.
\<close>

theorem extracted_query_count:
  assumes "distinct (map fst wb)"
  shows "\<exists>queries. extract_queries (Inr wb) = Inr queries
           \<and> length queries \<le> MAX_QUERIES
           \<and> (no_zero_like wb \<longrightarrow>
                length queries =
                  min 100 (spec_total_non_empty wb - (if spec_header_present wb then 1 else 0)))"
proof -
  let ?c = "concat (map (\<lambda>(name, sh). map first_value (filter first_cell_not_empty sh)) wb)"
  have e: "extract_queries (Inr wb) = Inr (take MAX_QUERIES (remove_header ?c))"
    by (simp add: extract_queries_def parse_queries_eq [OF assms])
  have "length (take MAX_QUERIES (remove_header ?c)) =
          min 100 (spec_total_non_empty wb - (if spec_header_present wb then 1 else 0))"
    if "no_zero_like wb"
    using collected_eq_spec [OF that]
    by (auto simp: length_remove_header MAX_QUERIES_def spec_total_non_empty_def
        spec_header_present_def split: list.splits)
  then show ?thesis
    using e by (simp add: MAX_QUERIES_def)
qed

text \<open>
  Claim C1 holds at the scenario of the specification: five rows, of which four are not
  empty and the first is the header, give three queries.
\<close>

theorem extracted_query_count_witness:
  "distinct (map fst workbook_scenario)
   \<and> no_zero_like workbook_scenario
   \<and> spec_total_non_empty workbook_scenario = 4
   \<and> spec_header_present workbook_scenario
   \<and> (\<exists>queries. extract_queries (Inr workbook_scenario) = Inr queries \<and> length queries = 3)"
proof -
  have d: "distinct (map fst workbook_scenario)"
    by (simp add: workbook_scenario_def)
  have z: "no_zero_like workbook_scenario"
    by (simp add: no_zero_like_def workbook_scenario_def text_cell_def zero_like_def)
  have n: "spec_total_non_empty workbook_scenario = 4"
    by (simp add: spec_total_non_empty_def spec_non_empty_values_def workbook_scenario_def
        text_cell_def)
  have h: "spec_header_present workbook_scenario"
    by (simp add: spec_header_present_def spec_non_empty_values_def workbook_scenario_def
        text_cell_def)
  show ?thesis
    using extracted_query_count [OF d] d z n h by auto
qed

text \<open>
  Claim C1 as the specification words it fails on a sheet of 101 text cells that starts with
  the header: the code keeps 100 queries, the formula of the claim gives 99.
\<close>

theorem header_beyond_cap_counterexample:
  "spec_header_present workbook_101
   \<and> min 100 (spec_total_non_empty workbook_101) - 1 = 99
   \<and> extract_queries (Inr workbook_101) = Inr (replicate 100 (PStr ''Acme Corp''))
   \<and> length (replicate 100 (PStr ''Acme Corp'')) = 100"
  by (simp add: workbook_101_def text_cell_def spec_header_present_def
      spec_total_non_empty_def spec_non_empty_values_def extract_queries_def
      parse_queries_from_xlsx_file_def sheetnames_def workbook_getitem_def collect_rows_eq
      py_eq_PStr MAX_QUERIES_def)

section \<open>Properties of the result extractor\<close>

lemma str_replace_char:
  "str_replace [a] [b] s = map (\<lambda>c. if c = a then b else c) s"
proof (induction s)
  case Nil
  show ?case by (subst str_replace.simps) simp
next
  case (Cons c s)
  show ?case by (subst str_replace.simps) (simp add: Cons.IH)
qed

lemma str_split_first:
  "\<exists>toks. str_split sep s = takeWhile (\<lambda>c. c \<noteq> sep) s # toks"
  by (induction s) auto

lemma find_then_text:
  assumes "drv_find_element drv xpath (browser w) = (Inr el, b1)"
    and "el_text drv el b1 = (Inr t, b2)"
  shows "bind (call (FindElement xpath) (drv_find_element drv xpath))
           (\<lambda>el. bind (call (Text el) (el_text drv el)) (\<lambda>text. Pair (g text))) w
         = (g t, w\<lparr>browser := b2, interactions := interactions w @ [FindElement xpath, Text el]\<rparr>)"
  using assms by (simp add: bind_def call_def)

lemma parse_star_score_text:
  assumes "drv_find_element drv star_score_xpath (browser w) = (Inr el, b1)"
    and "el_text drv el b1 = (Inr t, b2)"
  shows "parse_star_score drv w =
     (Inr (str_replace '','' ''.'' t),
      w\<lparr>browser := b2, interactions := interactions w @ [FindElement star_score_xpath, Text el]\<rparr>)"
  unfolding parse_star_score_def by (rule find_then_text [OF assms])

lemma parse_number_of_reviews_text:
  assumes "drv_find_element drv reviews_xpath (browser w) = (Inr el, b1)"
    and "el_text drv el b1 = (Inr t, b2)"
  shows "parse_number_of_reviews drv w =
     (Inr (takeWhile (\<lambda>c. c \<noteq> CHR '' '') t),
      w\<lparr>browser := b2, interactions := interactions w @ [FindElement reviews_xpath, Text el]\<rparr>)"
proof -
  obtain toks where "str_split CHR '' '' t = takeWhile (\<lambda>c. c \<noteq> CHR '' '') t # toks"
    using str_split_first by blast
  then show ?thesis
    unfolding parse_number_of_reviews_def by (simp add: find_then_text [OF assms])
qed


lemma xpaths_distinct:
  "search_field_xpath \<noteq> star_score_xpath" "search_field_xpath \<noteq> reviews_xpath"
  "star_score_xpath \<noteq> reviews_xpath" "star_score_xpath \<noteq> search_field_xpath"
  "reviews_xpath \<noteq> search_field_xpath" "reviews_xpath \<noteq> star_score_xpath"
  by (simp_all add: search_field_xpath_def star_score_xpath_def reviews_xpath_def)

lemma fake_driver_sel:
  "drv_get (fake_driver site) url p =
     (Inr (), \<lparr>page_url = url, has_search_field = True, typed = [],
               star_text = None, reviews_text = None\<rparr>)"
  "drv_find_element (fake_driver site) xpath p = (fake_find xpath p, p)"
  "drv_current_url (fake_driver site) p = (Inr (page_url p), p)"
  "el_clear (fake_driver site) el p = (Inr (), p\<lparr>typed := []\<rparr>)"
  "el_send_keys (fake_driver site) el (PStr s) p = (Inr (), p\<lparr>typed := typed p @ s\<rparr>)"
  "el_send_keys (fake_driver site) el (PInt i) p = (Inl TypeError, p)"
  "el_submit (fake_driver site) el p = (Inr (), site (typed p))"
  "el_text (fake_driver site) el p = (fake_text el p, p)"
  by (simp_all add: fake_driver_def)

lemma fake_find_sel:
  "fake_find search_field_xpath p =
     (if has_search_field p then Inr 0 else Inl NoSuchElementException)"
  "fake_find star_score_xpath p =
     (case star_text p of None \<Rightarrow> Inl NoSuchElementException | Some t \<Rightarrow> Inr 1)"
  "fake_find reviews_xpath p =
     (case reviews_text p of None \<Rightarrow> Inl NoSuchElementException | Some t \<Rightarrow> Inr 2)"
  by (simp_all add: fake_find_def xpaths_distinct)

lemma demo_site_sel:
  "demo_site ''Acme Corp'' = result_page ''Acme Corp'' (Some ''4,5'') (Some ''1,234 reviews'')"
  "demo_site ''Beta LLC'' = result_page ''Beta LLC'' (Some ''4.5'') None"
  "demo_site ''Gamma'' =
     result_page ''Gamma'' (Some ''1,234'') (Some (''1,234'' @ [CHR 0x0A] @ ''reviews''))"
  by (simp_all add: demo_site_def)

lemmas fixture = fake_driver_sel fake_find_sel demo_site_sel result_page_def world_at_def
  fake_text_def

subsection \<open>Star score\<close>

lemma comma_map_unchanged:
  "CHR '','' \<notin> set s \<Longrightarrow> map (\<lambda>c. if c = CHR '','' then CHR ''.'' else c) s = s"
  by (induction s) auto

text \<open>
  Claim C6. Where the rating element is found and its text is read, a comma that separates
  two comma-free parts is replaced by a period and the parts are kept, and a text without
  a comma is stored unchanged: the displayed text \<^verbatim>\<open>4,5\<close> is stored as \<^verbatim>\<open>4.5\<close>, and the
  displayed text \<^verbatim>\<open>4.5\<close> is stored as it is.
\<close>

theorem star_score_decimal_separator:
  assumes "drv_find_element drv star_score_xpath (browser w) = (Inr el, b1)"
    and "el_text drv el b1 = (Inr t, b2)"
  shows "parse_star_score drv w =
           (Inr (str_replace '','' ''.'' t),
            w\<lparr>browser := b2,
               interactions := interactions w @ [FindElement star_score_xpath, Text el]\<rparr>)
       \<and> (\<forall>a b. t = a @ '','' @ b \<longrightarrow> CHR '','' \<notin> set a \<longrightarrow> CHR '','' \<notin> set b \<longrightarrow>
             fst (parse_star_score drv w) = Inr (a @ ''.'' @ b))
       \<and> (CHR '','' \<notin> set t \<longrightarrow> fst (parse_star_score drv w) = Inr t)
       \<and> (t = ''4,5'' \<longrightarrow> fst (parse_star_score drv w) = Inr ''4.5'')
       \<and> (t = ''4.5'' \<longrightarrow> fst (parse_star_score drv w) = Inr t)"
  by (simp add: parse_star_score_text [OF assms] str_replace_char comma_map_unchanged)

text \<open>
  Claim C6 on the two result pages of the small browser that show these texts.
\<close>

theorem star_score_decimal_separator_witness:
  "el_text (fake_driver demo_site) 1 (demo_site ''Acme Corp'') = (Inr ''4,5'', demo_site ''Acme Corp'')
   \<and> el_text (fake_driver demo_site) 1 (demo_site ''Beta LLC'') = (Inr ''4.5'', demo_site ''Beta LLC'')
   \<and> fst (parse_star_score (fake_driver demo_site) (world_at (demo_site ''Acme Corp''))) = Inr ''4.5''
   \<and> fst (parse_star_score (fake_driver demo_site) (world_at (demo_site ''Beta LLC''))) = Inr ''4.5''
   \<and> CHR '','' \<notin> set ''4.5''"
proof -
  have f1: "drv_find_element (fake_driver demo_site) star_score_xpath
              (browser (world_at (demo_site ''Acme Corp''))) = (Inr 1, demo_site ''Acme Corp'')"
    by (simp add: fixture)
  have f2: "drv_find_element (fake_driver demo_site) star_score_xpath
              (browser (world_at (demo_site ''Beta LLC''))) = (Inr 1, demo_site ''Beta LLC'')"
    by (simp add: fixture)
  have t1: "el_text (fake_driver demo_site) 1 (demo_site ''Acme Corp'')
              = (Inr ''4,5'', demo_site ''Acme Corp'')"
    by (simp add: fixture)
  have t2: "el_text (fake_driver demo_site) 1 (demo_site ''Beta LLC'')
              = (Inr ''4.5'', demo_site ''Beta LLC'')"
    by (simp add: fixture)
  have sep: "''4,5'' = ''4'' @ '','' @ ''5''" by simp
  note a = star_score_decimal_separator [OF f1 t1]
  note b = star_score_decimal_separator [OF f2 t2]
  have nc: "CHR '','' \<notin> set ''4''" "CHR '','' \<notin> set ''5''" "CHR '','' \<notin> set ''4.5''"
    by simp_all
  have a1: "fst (parse_star_score (fake_driver demo_site) (world_at (demo_site ''Acme Corp'')))
              = Inr ''4.5''"
    using a [THEN conjunct2, THEN conjunct1, rule_format, OF sep nc(1) nc(2)] by simp
  have b1: "fst (parse_star_score (fake_driver demo_site) (world_at (demo_site ''Beta LLC'')))
              = Inr ''4.5''"
    using b [THEN conjunct2, THEN conjunct2, THEN conjunct1, rule_format, OF nc(3)] by simp
  show ?thesis
    using t1 t2 a1 b1 nc(3) by simp
qed

text \<open>
  Claim C9. Where the rating element is found and its text \<open>t\<close> is read, the stored star
  score is \<open>t\<close> with every comma replaced by a period: it has the length of \<open>t\<close> and
  no comma is left in it.
\<close>

theorem star_score_every_comma:
  assumes "drv_find_element drv star_score_xpath (browser w) = (Inr el, b1)"
    and "el_text drv el b1 = (Inr t, b2)"
  shows "\<exists>stored. fst (parse_star_score drv w) = Inr stored
           \<and> stored = map (\<lambda>c. if c = CHR '','' then CHR ''.'' else c) t
           \<and> length stored = length t
           \<and> CHR '','' \<notin> set stored"
  by (auto simp: parse_star_score_text [OF assms] str_replace_char)

text \<open>
  Claim C9 on a page whose rating element shows \<^verbatim>\<open>1,234\<close>: the stored value is
  \<^verbatim>\<open>1.234\<close>.
\<close>

theorem star_score_every_comma_witness:
  "el_text (fake_driver demo_site) 1 (demo_site ''Gamma'') = (Inr ''1,234'', demo_site ''Gamma'')
   \<and> fst (parse_star_score (fake_driver demo_site) (world_at (demo_site ''Gamma''))) = Inr ''1.234''"
proof -
  have f: "drv_find_element (fake_driver demo_site) star_score_xpath
              (browser (world_at (demo_site ''Gamma''))) = (Inr 1, demo_site ''Gamma'')"
    by (simp add: fixture)
  have t: "el_text (fake_driver demo_site) 1 (demo_site ''Gamma'')
              = (Inr ''1,234'', demo_site ''Gamma'')"
    by (simp add: fixture)
  show ?thesis
    using star_score_every_comma [OF f t] t by simp
qed

subsection \<open>Review count\<close>

text \<open>
  Claim C7 as the specification words it fails where the count and its label are separated
  by a line feed: the text is cut at spaces only, so the whole text is stored, while the
  leading whitespace-delimited token is \<^verbatim>\<open>1,234\<close>.
\<close>

theorem reviews_count_not_whitespace_token:
  "fst (parse_number_of_reviews (fake_driver demo_site) (world_at (demo_site ''Gamma'')))
     = Inr (''1,234'' @ [CHR 0x0A] @ ''reviews'')
   \<and> spec_leading_token (''1,234'' @ [CHR 0x0A] @ ''reviews'') = ''1,234''
   \<and> el_text (fake_driver demo_site) 2 (demo_site ''Gamma'')
       = (Inr (''1,234'' @ [CHR 0x0A] @ ''reviews''), demo_site ''Gamma'')"
proof -
  have f: "drv_find_element (fake_driver demo_site) reviews_xpath
              (browser (world_at (demo_site ''Gamma''))) = (Inr 2, demo_site ''Gamma'')"
    by (simp add: fixture)
  have t: "el_text (fake_driver demo_site) 2 (demo_site ''Gamma'')
              = (Inr (''1,234'' @ [CHR 0x0A] @ ''reviews''), demo_site ''Gamma'')"
    by (simp add: fixture)
  show ?thesis
    using t by (simp add: parse_number_of_reviews_text [OF f t] spec_leading_token_def
        is_whitespace_def)
qed

text \<open>
  Claim C7, as the code has it. Where the review-count element is found and its text is
  read, the stored count is the text before its first space character (the whole text when
  it has none); for the text \<^verbatim>\<open>1,234 reviews\<close> it is \<^verbatim>\<open>1,234\<close>.
\<close>

theorem reviews_count_before_first_space:
  assumes "drv_find_element drv reviews_xpath (browser w) = (Inr el, b1)"
    and "el_text drv el b1 = (Inr t, b2)"
  shows "fst (parse_number_of_reviews drv w) = Inr (takeWhile (\<lambda>c. c \<noteq> CHR '' '') t)
       \<and> (t = ''1,234 reviews'' \<longrightarrow> fst (parse_number_of_reviews drv w) = Inr ''1,234'')"
  by (simp add: parse_number_of_reviews_text [OF assms])

text \<open>
  Claim C7 on the result page that shows \<^verbatim>\<open>1,234 reviews\<close>.
\<close>

theorem reviews_count_before_first_space_witness:
  "el_text (fake_driver demo_site) 2 (demo_site ''Acme Corp'')
     = (Inr ''1,234 reviews'', demo_site ''Acme Corp'')
   \<and> fst (parse_number_of_reviews (fake_driver demo_site) (world_at (demo_site ''Acme Corp'')))
     = Inr ''1,234''"
proof -
  have f: "drv_find_element (fake_driver demo_site) reviews_xpath
              (browser (world_at (demo_site ''Acme Corp''))) = (Inr 2, demo_site ''Acme Corp'')"
    by (simp add: fixture)
  have t: "el_text (fake_driver demo_site) 2 (demo_site ''Acme Corp'')
              = (Inr ''1,234 reviews'', demo_site ''Acme Corp'')"
    by (simp add: fixture)
  show ?thesis
    using reviews_count_before_first_space [OF f t] t by simp
qed


subsection \<open>The result record of one query\<close>


lemmas run_defs = parse_search_results_def search_query_on_google_def parse_star_score_def
  parse_number_of_reviews_def bind_def call_def sleep_uniform_def add_log_def
  except_extraction_def

text \<open>
  Claim C2 as the specification words it fails on a page that has the rating element and
  lacks the review-count element: the submission succeeds, locating the review count raises
  \<^verbatim>\<open>NoSuchElementException\<close>, and the record still holds the star score.
\<close>

theorem star_score_kept_without_reviews:
  "fst (search_query_on_google (fake_driver demo_site) (PStr ''Beta LLC'') (world_at home_page))
     = Inr ()
   \<and> fst (drv_find_element (fake_driver demo_site) reviews_xpath (demo_site ''Beta LLC''))
     = Inl NoSuchElementException
   \<and> map_of (fst (parse_search_results (fake_driver demo_site) (PStr ''Beta LLC'')
        (world_at home_page))) ''star_score'' = Some (PStr ''4.5'')
   \<and> map_of (fst (parse_search_results (fake_driver demo_site) (PStr ''Beta LLC'')
        (world_at home_page))) ''reviews_count'' = None"
  by (simp add: run_defs fixture home_page_def str_replace_char)

text \<open>
  Claim C2, as the code has it. After a successful submission a record is returned in every
  case and no exception leaves the function. If reading the address or the star-score step
  raises, both fields are absent. If the star-score step succeeds, the star score is set,
  and the review count is set exactly when the review-count step succeeds as well. A step
  that raises adds one log entry, at debug level when the element is missing, and changes
  nothing else.
\<close>

theorem review_fields_after_submission:
  assumes "search_query_on_google drv query w0 = (Inr (), ws)"
  shows "\<exists>r w. parse_search_results drv query w0 = (r, w)
       \<and> map_of r ''query'' = Some query
       \<and> (\<forall>e w1. call CurrentUrl (drv_current_url drv) ws = (Inl e, w1) \<longrightarrow>
             map_of r ''star_score'' = None \<and> map_of r ''reviews_count'' = None)
       \<and> (\<forall>url w1. call CurrentUrl (drv_current_url drv) ws = (Inr url, w1) \<longrightarrow>
             (\<forall>e w2. parse_star_score drv w1 = (Inl e, w2) \<longrightarrow>
                map_of r ''star_score'' = None \<and> map_of r ''reviews_count'' = None
                \<and> w = add_log (if e = NoSuchElementException then DebugNoReviewElements query
                                else LogException e) w2)
           \<and> (\<forall>s w2. parse_star_score drv w1 = (Inr s, w2) \<longrightarrow>
                map_of r ''star_score'' = Some (PStr s)
                \<and> (\<forall>e w3. parse_number_of_reviews drv w2 = (Inl e, w3) \<longrightarrow>
                     map_of r ''reviews_count'' = None
                     \<and> w = add_log (if e = NoSuchElementException
                                     then DebugNoReviewElements query else LogException e) w3)
                \<and> (\<forall>n w3. parse_number_of_reviews drv w2 = (Inr n, w3) \<longrightarrow>
                     map_of r ''reviews_count'' = Some (PStr n) \<and> w = w3)))"
  using assms
  by (auto simp: parse_search_results_def except_extraction_def bind_def Let_def
      split: prod.splits sum.splits)

text \<open>
  Claim C2 on a query whose result page has both elements.
\<close>

theorem review_fields_after_submission_witness:
  "search_query_on_google (fake_driver demo_site) (PStr ''Acme Corp'') (world_at home_page)
     = (Inr (),
        \<lparr>browser = demo_site ''Acme Corp'',
         interactions = [FindElement search_field_xpath, Clear 0, SendKeys 0 (PStr ''Acme Corp''),
                         Sleep 0.2 2, Submit 0],
         logged = [], outfile = []\<rparr>)
   \<and> map_of (fst (parse_search_results (fake_driver demo_site) (PStr ''Acme Corp'')
        (world_at home_page))) ''star_score'' = Some (PStr ''4.5'')
   \<and> map_of (fst (parse_search_results (fake_driver demo_site) (PStr ''Acme Corp'')
        (world_at home_page))) ''reviews_count'' = Some (PStr ''1,234'')"
proof -
  let ?ws = "\<lparr>browser = demo_site ''Acme Corp'',
         interactions = [FindElement search_field_xpath, Clear 0, SendKeys 0 (PStr ''Acme Corp''),
                         Sleep 0.2 2, Submit 0],
         logged = [], outfile = []\<rparr>"
  let ?w1 = "?ws\<lparr>interactions := interactions ?ws @ [CurrentUrl]\<rparr>"
  let ?w2 = "?w1\<lparr>interactions := interactions ?w1 @ [FindElement star_score_xpath, Text 1]\<rparr>"
  let ?w3 = "?w2\<lparr>interactions := interactions ?w2 @ [FindElement reviews_xpath, Text 2]\<rparr>"
  have sub: "search_query_on_google (fake_driver demo_site) (PStr ''Acme Corp'')
               (world_at home_page) = (Inr (), ?ws)"
    by (simp add: search_query_on_google_def bind_def call_def sleep_uniform_def fixture
        home_page_def)
  have url: "call CurrentUrl (drv_current_url (fake_driver demo_site)) ?ws
               = (Inr ''https://www.google.com/search?q=Acme Corp'', ?w1)"
    by (simp add: call_def fixture)
  have star: "parse_star_score (fake_driver demo_site) ?w1 = (Inr ''4.5'', ?w2)"
    by (simp add: parse_star_score_def bind_def call_def fixture str_replace_char)
  have rev: "parse_number_of_reviews (fake_driver demo_site) ?w2 = (Inr ''1,234'', ?w3)"
    by (simp add: parse_number_of_reviews_def bind_def call_def fixture)
  obtain r w where
    p: "parse_search_results (fake_driver demo_site) (PStr ''Acme Corp'') (world_at home_page)
          = (r, w)"
    and ok: "\<forall>url w1.
        call CurrentUrl (drv_current_url (fake_driver demo_site)) ?ws = (Inr url, w1) \<longrightarrow>
          (\<forall>e w2. parse_star_score (fake_driver demo_site) w1 = (Inl e, w2) \<longrightarrow>
             map_of r ''star_score'' = None \<and> map_of r ''reviews_count'' = None
             \<and> w = add_log (if e = NoSuchElementException
                             then DebugNoReviewElements (PStr ''Acme Corp'')
                             else LogException e) w2)
        \<and> (\<forall>s w2. parse_star_score (fake_driver demo_site) w1 = (Inr s, w2) \<longrightarrow>
             map_of r ''star_score'' = Some (PStr s)
             \<and> (\<forall>e w3. parse_number_of_reviews (fake_driver demo_site) w2 = (Inl e, w3) \<longrightarrow>
                  map_of r ''reviews_count'' = None
                  \<and> w = add_log (if e = NoSuchElementException
                                  then DebugNoReviewElements (PStr ''Acme Corp'')
                                  else LogException e) w3)
             \<and> (\<forall>n w3. parse_number_of_reviews (fake_driver demo_site) w2 = (Inr n, w3) \<longrightarrow>
                  map_of r ''reviews_count'' = Some (PStr n) \<and> w = w3))"
    using review_fields_after_submission [OF sub] by (elim exE conjE) (rule that)
  have found: "\<forall>s w2. parse_star_score (fake_driver demo_site) ?w1 = (Inr s, w2) \<longrightarrow>
             map_of r ''star_score'' = Some (PStr s)
             \<and> (\<forall>n w3. parse_number_of_reviews (fake_driver demo_site) w2 = (Inr n, w3) \<longrightarrow>
                  map_of r ''reviews_count'' = Some (PStr n) \<and> w = w3)"
    using ok [rule_format, OF url] by blast
  have "map_of r ''star_score'' = Some (PStr ''4.5'')"
    and "map_of r ''reviews_count'' = Some (PStr ''1,234'')"
    using found [rule_format, OF star] rev by blast+
  then show ?thesis
    using sub p by simp
qed

section \<open>Properties of a run\<close>

lemma py_eq_refl: "py_eq q q"
  by (cases q) (simp_all add: py_eq_def)

lemma py_eq_is_text: "is_text q \<Longrightarrow> py_eq k q \<Longrightarrow> k = q"
  by (cases q) (simp_all add: is_text_def py_eq_PStr)

lemma keeps_outfile_bind:
  "keeps_outfile m \<Longrightarrow> (\<And>a. keeps_outfile (f a)) \<Longrightarrow> keeps_outfile (bind m f)"
  unfolding keeps_outfile_def bind_def
  by (auto split: prod.splits sum.splits) (metis snd_conv)+

lemma keeps_outfile_call: "keeps_outfile (call i f)"
  by (simp add: keeps_outfile_def call_def split: prod.splits)

lemma keeps_outfile_sleep: "keeps_outfile (sleep_uniform lo hi)"
  by (simp add: keeps_outfile_def sleep_uniform_def)

lemma keeps_outfile_Pair: "keeps_outfile (Pair r)"
  by (simp add: keeps_outfile_def)

lemmas keeps_outfile_intros = keeps_outfile_bind keeps_outfile_call keeps_outfile_sleep
  keeps_outfile_Pair

lemma keeps_outfile_D: "keeps_outfile m \<Longrightarrow> m w = (r, w') \<Longrightarrow> outfile w' = outfile w"
  unfolding keeps_outfile_def by (metis snd_conv)

lemma keeps_search: "keeps_outfile (search_query_on_google drv q)"
  unfolding search_query_on_google_def by (intro keeps_outfile_intros)

lemma keeps_star: "keeps_outfile (parse_star_score drv)"
  unfolding parse_star_score_def by (intro keeps_outfile_intros)

lemma keeps_reviews: "keeps_outfile (parse_number_of_reviews drv)"
  unfolding parse_number_of_reviews_def by (intro keeps_outfile_intros)

lemma outfile_add_log [simp]: "outfile (add_log l w) = outfile w"
  by (simp add: add_log_def)

lemma outfile_except [simp]: "outfile (except_extraction q e w) = outfile w"
  by (simp add: except_extraction_def)

lemma parse_search_results_outfile:
  "parse_search_results drv q w = (sr, w') \<Longrightarrow> outfile w' = outfile w"
proof -
  have sub: "keeps_outfile (bind (search_query_on_google drv q)
               (\<lambda>_. call CurrentUrl (drv_current_url drv)))"
    by (intro keeps_outfile_intros keeps_search)
  assume "parse_search_results drv q w = (sr, w')"
  then show ?thesis
    by (auto simp: parse_search_results_def Let_def split: prod.splits sum.splits
        dest!: keeps_outfile_D [OF sub] keeps_outfile_D [OF keeps_star]
          keeps_outfile_D [OF keeps_reviews])
qed

lemma parse_search_results_keys:
  "parse_search_results drv q w = (sr, w') \<Longrightarrow>
   list_all (\<lambda>f. f \<in> set fieldnames) (map fst sr) \<and> map_of sr ''query'' = Some q"
  by (auto simp: parse_search_results_def Let_def fieldnames_def
      split: prod.splits sum.splits)

lemma writerow_ok:
  "list_all (\<lambda>f. f \<in> set fieldnames) (map fst sr) \<Longrightarrow>
   writerow sr w = (Inr (), w\<lparr>outfile := outfile w @ [row_of sr]\<rparr>)"
  by (simp add: writerow_def dict_to_list_def row_of_def filter_empty_conv list_all_iff)

lemma dict_lookup_mem:
  "dict_lookup seen q = Some sr \<Longrightarrow> \<exists>k. (k, sr) \<in> set seen \<and> py_eq k q"
  by (induction seen q rule: dict_lookup.induct) (auto split: if_splits)

lemma dict_store_new:
  "dict_lookup seen q = None \<Longrightarrow> dict_store seen q sr = seen @ [(q, sr)]"
  by (induction seen q rule: dict_lookup.induct) (auto split: if_splits)

lemma dict_lookup_append:
  "dict_lookup (seen @ [(k, v)]) q =
     (case dict_lookup seen q of
        Some sr \<Rightarrow> Some sr
      | None \<Rightarrow> if py_eq k q then Some v else None)"
  by (induction seen q rule: dict_lookup.induct) auto

lemma cache_ok_lookup:
  "cache_ok seen \<Longrightarrow> dict_lookup seen q = Some sr \<Longrightarrow>
   list_all (\<lambda>f. f \<in> set fieldnames) (map fst sr) \<and> (\<exists>k. map_of sr ''query'' = Some k \<and> py_eq k q)"
  by (auto simp: cache_ok_def list_all_iff dest!: dict_lookup_mem)

lemma process_query_hit:
  assumes "cache_ok seen" and "dict_lookup seen q = Some sr"
  shows "process_query drv seen q w =
     (Inr seen, w\<lparr>logged := logged w @ [DebugUsingCached sr],
                  outfile := outfile w @ [row_of sr]\<rparr>)"
  using cache_ok_lookup [OF assms] assms(2)
  by (simp add: process_query_def bind_def writerow_ok add_log_def)

lemma process_query_miss:
  assumes "dict_lookup seen q = None"
    and "parse_search_results drv q (w\<lparr>interactions := interactions w @ [Sleep 3 5]\<rparr>) = (sr, w2)"
  shows "process_query drv seen q w =
     (Inr (seen @ [(q, sr)]),
      w2\<lparr>logged := logged w2 @ [DebugParsedResults sr], outfile := outfile w @ [row_of sr]\<rparr>)"
  using assms parse_search_results_keys [OF assms(2)] parse_search_results_outfile [OF assms(2)]
  by (simp add: process_query_def bind_def sleep_uniform_def writerow_ok add_log_def
      dict_store_new)


lemma cache_ok_append:
  "cache_ok seen \<Longrightarrow> list_all (\<lambda>f. f \<in> set fieldnames) (map fst sr) \<Longrightarrow>
   map_of sr ''query'' = Some q \<Longrightarrow> cache_ok (seen @ [(q, sr)])"
  by (simp add: cache_ok_def)

lemma process_query_step:
  assumes "cache_ok seen"
  shows "\<exists>seen' w'. process_query drv seen q w = (Inr seen', w')
       \<and> cache_ok seen'
       \<and> (\<forall>k sr. dict_lookup seen k = Some sr \<longrightarrow> dict_lookup seen' k = Some sr)
       \<and> dict_lookup seen' q \<noteq> None
       \<and> outfile w' = outfile w @ [cached_row seen' q]"
proof (cases "dict_lookup seen q")
  case (Some sr)
  show ?thesis
    using assms Some by (simp add: process_query_hit [OF assms Some] cached_row_def)
next
  case None
  obtain sr w2 where
    p: "parse_search_results drv q (w\<lparr>interactions := interactions w @ [Sleep 3 5]\<rparr>) = (sr, w2)"
    by (cases "parse_search_results drv q (w\<lparr>interactions := interactions w @ [Sleep 3 5]\<rparr>)")
  have ok: "cache_ok (seen @ [(q, sr)])"
    using assms parse_search_results_keys [OF p] by (simp add: cache_ok_append)
  show ?thesis
    using ok None
    by (simp add: process_query_miss [OF None p] cached_row_def dict_lookup_append py_eq_refl)
qed

lemma run_queries_inv:
  assumes "cache_ok seen"
  shows "\<exists>seen' w'. run_queries drv seen qs w = (Inr seen', w')
       \<and> cache_ok seen'
       \<and> (\<forall>k sr. dict_lookup seen k = Some sr \<longrightarrow> dict_lookup seen' k = Some sr)
       \<and> (\<forall>q \<in> set qs. dict_lookup seen' q \<noteq> None)
       \<and> outfile w' = outfile w @ map (cached_row seen') qs"
  using assms
proof (induction qs arbitrary: seen w)
  case Nil
  then show ?case by simp
next
  case (Cons q qs)
  obtain seen1 w1 where
    s1: "process_query drv seen q w = (Inr seen1, w1)" and ok1: "cache_ok seen1"
    and mono1: "\<And>k sr. dict_lookup seen k = Some sr \<Longrightarrow> dict_lookup seen1 k = Some sr"
    and in1: "dict_lookup seen1 q \<noteq> None"
    and out1: "outfile w1 = outfile w @ [cached_row seen1 q]"
    using process_query_step [OF Cons.prems, of drv q w] by blast
  obtain seen' w' where
    s2: "run_queries drv seen1 qs w1 = (Inr seen', w')" and ok2: "cache_ok seen'"
    and mono2: "\<And>k sr. dict_lookup seen1 k = Some sr \<Longrightarrow> dict_lookup seen' k = Some sr"
    and in2: "\<forall>q \<in> set qs. dict_lookup seen' q \<noteq> None"
    and out2: "outfile w' = outfile w1 @ map (cached_row seen') qs"
    using Cons.IH [OF ok1, of w1] by blast
  obtain sr where sr: "dict_lookup seen1 q = Some sr"
    using in1 by blast
  have same: "cached_row seen' q = cached_row seen1 q"
    using sr mono2 [OF sr] by (simp add: cached_row_def)
  have "run_queries drv seen (q # qs) w = (Inr seen', w')"
    by (simp add: s1 s2)
  moreover have "\<forall>k sr. dict_lookup seen k = Some sr \<longrightarrow> dict_lookup seen' k = Some sr"
    using mono1 mono2 by blast
  moreover have "\<forall>x \<in> set (q # qs). dict_lookup seen' x \<noteq> None"
    using in2 mono2 [OF sr] by simp
  moreover have "outfile w' = outfile w @ map (cached_row seen') (q # qs)"
    by (simp add: out2 out1 same)
  ultimately show ?case
    using ok2 by blast
qed

lemma run_queries_append:
  "run_queries drv seen (xs @ ys) w =
     (case run_queries drv seen xs w of
        (Inl e, w') \<Rightarrow> (Inl e, w')
      | (Inr seen', w') \<Rightarrow> run_queries drv seen' ys w')"
  by (induction xs arbitrary: seen w) (auto split: prod.splits sum.splits)

lemma cached_row_query:
  assumes "cache_ok seen" and "dict_lookup seen q \<noteq> None"
  shows "length (cached_row seen q) = 4 \<and> py_eq (cached_row seen q ! 0) q"
proof -
  obtain sr where sr: "dict_lookup seen q = Some sr"
    using assms(2) by blast
  obtain k where "map_of sr ''query'' = Some k" and "py_eq k q"
    using cache_ok_lookup [OF assms(1) sr] by blast
  then show ?thesis
    by (simp add: cached_row_def sr row_of_def fieldnames_def dict_get_def)
qed

lemma cache_ok_Nil: "cache_ok []"
  by (simp add: cache_ok_def)

lemma writeheader_eq:
  "writeheader w = (Inr (), w\<lparr>outfile := outfile w @ [map PStr fieldnames]\<rparr>)"
  by (simp add: writeheader_def writerow_def dict_to_list_def fieldnames_def dict_get_def)

lemma write_report_eq:
  assumes "drv_get drv ''https://google.com'' (browser w) = (Inr (), b')"
  shows "write_report drv queries w =
     run_queries drv [] queries
       (w\<lparr>outfile := outfile w @ [map PStr fieldnames], browser := b',
          interactions := interactions w @ [Get ''https://google.com'']\<rparr>)"
  using assms by (simp add: write_report_def bind_def writeheader_eq call_def)



lemma main_run:
  assumes "input_is_file env" and "create_webdriver env = Inr b"
    and "extract_queries (open_workbook_in_memory env) = Inr queries"
    and "open_output_file env = Inr u"
    and "drv_get drv ''https://google.com'' b = (Inr (), b')"
    and "run_queries drv [] queries
           \<lparr>browser = b', interactions = [Get ''https://google.com''],
            logged = [InfoParsed (length queries)], outfile = [map PStr fieldnames]\<rparr>
         = (Inr seen, w)"
  shows "main drv env =
     \<lparr>exit_status = 0, escaped = None, output_file = Some (outfile w),
      run_interactions = interactions w, run_log = logged w\<rparr>"
  using assms by (simp add: main_def prepare_def write_report_eq)

text \<open>
  Claim C3. When the run reaches the loop (the input file exists, the browser session
  starts, the queries are extracted, the output file opens and the start page loads), it
  ends with status 0 and the report is the header row followed by exactly one row per
  query, in the order of the queries: the query field of the i-th row equals the i-th
  query in Python's sense, and is the i-th query itself when the queries are texts.
\<close>

theorem one_row_per_query:
  assumes "input_is_file env" and "create_webdriver env = Inr b"
    and "extract_queries (open_workbook_in_memory env) = Inr queries"
    and "open_output_file env = Inr u"
    and "drv_get drv ''https://google.com'' b = (Inr (), b')"
  shows "\<exists>rows. output_file (main drv env) = Some (map PStr fieldnames # rows)
       \<and> exit_status (main drv env) = 0
       \<and> length rows = length queries
       \<and> list_all2 (\<lambda>row query. length row = 4 \<and> py_eq (row ! 0) query) rows queries
       \<and> (list_all is_text queries \<longrightarrow> map (\<lambda>row. row ! 0) rows = queries)"
proof -
  let ?w0 = "\<lparr>browser = b', interactions = [Get ''https://google.com''],
            logged = [InfoParsed (length queries)], outfile = [map PStr fieldnames]\<rparr>"
  obtain seen w where run: "run_queries drv [] queries ?w0 = (Inr seen, w)"
    and ok: "cache_ok seen"
    and present: "\<forall>q \<in> set queries. dict_lookup seen q \<noteq> None"
    and out: "outfile w = outfile ?w0 @ map (cached_row seen) queries"
    using run_queries_inv [OF cache_ok_Nil, of drv queries ?w0] by blast
  let ?rows = "map (cached_row seen) queries"
  have m: "main drv env =
     \<lparr>exit_status = 0, escaped = None, output_file = Some (outfile w),
      run_interactions = interactions w, run_log = logged w\<rparr>"
    by (rule main_run [OF assms run])
  have each: "\<And>q. q \<in> set queries \<Longrightarrow>
       length (cached_row seen q) = 4 \<and> py_eq (cached_row seen q ! 0) q"
    using cached_row_query [OF ok] present by blast
  have rel: "list_all2 (\<lambda>row query. length row = 4 \<and> py_eq (row ! 0) query) ?rows queries"
    using each by (simp add: list_all2_conv_all_nth)
  have texts: "map (\<lambda>row. row ! 0) ?rows = queries" if "list_all is_text queries"
  proof -
    have "\<And>q. q \<in> set queries \<Longrightarrow> cached_row seen q ! 0 = q"
      using each that py_eq_is_text by (auto simp: list_all_iff)
    then show ?thesis by (simp add: map_idI)
  qed
  show ?thesis
    using rel texts by (intro exI [of _ ?rows]) (simp add: m out)
qed


lemma extract_scenario:
  "extract_queries (Inr workbook_scenario)
     = Inr [PStr ''Acme Corp'', PStr ''Acme Corp'', PStr ''Beta LLC'']"
  by (simp add: extract_queries_def parse_queries_from_xlsx_file_def sheetnames_def
      workbook_getitem_def workbook_scenario_def text_cell_def py_eq_PStr MAX_QUERIES_def)

lemma demo_environment_sel:
  "input_is_file (demo_environment wb)"
  "create_webdriver (demo_environment wb) = Inr start_page"
  "open_workbook_in_memory (demo_environment wb) = Inr wb"
  "open_output_file (demo_environment wb) = Inr ()"
  by (simp_all add: demo_environment_def)

lemma demo_get:
  "drv_get (fake_driver demo_site) ''https://google.com'' start_page = (Inr (), home_page)"
  by (simp add: fake_driver_sel home_page_def)

text \<open>
  Claim C3 on the scenario of the specification: three queries, one of them twice, give three
  rows in the order of the queries.
\<close>

theorem one_row_per_query_witness:
  "extract_queries (open_workbook_in_memory (demo_environment workbook_scenario))
     = Inr [PStr ''Acme Corp'', PStr ''Acme Corp'', PStr ''Beta LLC'']
   \<and> (\<exists>rows. output_file (main (fake_driver demo_site) (demo_environment workbook_scenario))
                = Some (map PStr fieldnames # rows)
         \<and> length rows = 3
         \<and> map (\<lambda>row. row ! 0) rows = [PStr ''Acme Corp'', PStr ''Acme Corp'', PStr ''Beta LLC''])"
proof -
  have q: "extract_queries (open_workbook_in_memory (demo_environment workbook_scenario))
     = Inr [PStr ''Acme Corp'', PStr ''Acme Corp'', PStr ''Beta LLC'']"
    by (simp add: demo_environment_sel extract_scenario)
  show ?thesis
    using one_row_per_query [OF demo_environment_sel(1) demo_environment_sel(2) q
        demo_environment_sel(4) demo_get] q
    by (auto simp: is_text_def)
qed

text \<open>
  Claim C4. Let the query at position \<open>j\<close> have occurred before, at position \<open>i\<close>.
  Then processing it leaves the cache, the browser and the list of calls to the browser
  and the clock as they were after the first \<open>j\<close> queries: it adds one line to the log
  and one row to the report, and that row is the row written at position \<open>i\<close>, so
  that the two have the same text.
\<close>

theorem repeated_query_reuses_row:
  assumes "i < j" and "j < length queries" and "queries ! i = queries ! j"
  shows "\<exists>seen w' sr.
       run_queries drv [] (take j queries) w = (Inr seen, w')
     \<and> run_queries drv [] (take (Suc j) queries) w =
         (Inr seen, w'\<lparr>logged := logged w' @ [DebugUsingCached sr],
                       outfile := outfile w' @ [outfile w' ! (length (outfile w) + i)]\<rparr>)
     \<and> interactions (snd (run_queries drv [] (take (Suc j) queries) w))
         = interactions (snd (run_queries drv [] (take j queries) w))
     \<and> browser (snd (run_queries drv [] (take (Suc j) queries) w))
         = browser (snd (run_queries drv [] (take j queries) w))
     \<and> length (outfile w') = length (outfile w) + j
     \<and> csv_row_text ((outfile w' @ [outfile w' ! (length (outfile w) + i)]) ! (length (outfile w) + j))
         = csv_row_text (outfile w' ! (length (outfile w) + i))"
proof -
  obtain seen w' where run: "run_queries drv [] (take j queries) w = (Inr seen, w')"
    and ok: "cache_ok seen"
    and present: "\<forall>q \<in> set (take j queries). dict_lookup seen q \<noteq> None"
    and out: "outfile w' = outfile w @ map (cached_row seen) (take j queries)"
    using run_queries_inv [OF cache_ok_Nil, of drv "take j queries" w] by blast
  have mem: "queries ! i \<in> set (take j queries)"
    using assms(1,2) by (metis in_set_conv_nth length_take less_imp_le_nat min.absorb2
        nth_take order_less_trans)
  then obtain sr where sr: "dict_lookup seen (queries ! j) = Some sr"
    using present assms(3) by auto
  have len: "length (outfile w') = length (outfile w) + j"
    using assms(2) by (simp add: out)
  have row_i: "outfile w' ! (length (outfile w) + i) = row_of sr"
    using assms sr by (simp add: out nth_append cached_row_def)
  have split: "take (Suc j) queries = take j queries @ [queries ! j]"
    using assms(2) by (simp add: take_Suc_conv_app_nth)
  have step: "run_queries drv [] (take (Suc j) queries) w =
         (Inr seen, w'\<lparr>logged := logged w' @ [DebugUsingCached sr],
                       outfile := outfile w' @ [outfile w' ! (length (outfile w) + i)]\<rparr>)"
    by (simp add: split run_queries_append run process_query_hit [OF ok sr] row_i)
  have "(outfile w' @ [outfile w' ! (length (outfile w) + i)]) ! (length (outfile w) + j)
          = outfile w' ! (length (outfile w) + i)"
    using len by (metis nth_append_length)
  then show ?thesis
    using run step len by auto
qed

text \<open>
  Claim C4 on the scenario of the specification, where the second query repeats the first.
\<close>

theorem repeated_query_reuses_row_witness:
  "(0::nat) < 1
   \<and> 1 < length [PStr ''Acme Corp'', PStr ''Acme Corp'', PStr ''Beta LLC'']
   \<and> [PStr ''Acme Corp'', PStr ''Acme Corp'', PStr ''Beta LLC''] ! 0
       = [PStr ''Acme Corp'', PStr ''Acme Corp'', PStr ''Beta LLC''] ! 1
   \<and> (\<exists>seen w' sr.
         run_queries (fake_driver demo_site) [] [PStr ''Acme Corp''] (world_at home_page)
           = (Inr seen, w')
       \<and> run_queries (fake_driver demo_site) [] [PStr ''Acme Corp'', PStr ''Acme Corp'']
           (world_at home_page)
           = (Inr seen, w'\<lparr>logged := logged w' @ [DebugUsingCached sr],
                         outfile := outfile w' @ [outfile w' ! 0]\<rparr>))"
proof -
  let ?qs = "[PStr ''Acme Corp'', PStr ''Acme Corp'', PStr ''Beta LLC'']"
  have h1: "(0::nat) < 1" by simp
  have h2: "1 < length ?qs" by simp
  have h3: "?qs ! 0 = ?qs ! 1" by simp
  have o: "outfile (world_at home_page :: page world) = []"
    by (simp add: world_at_def)
  show ?thesis
    using repeated_query_reuses_row [OF h1 h2 h3, of "fake_driver demo_site" "world_at home_page"]
    by (simp add: o) blast
qed



lemma parse_search_results_failed:
  assumes "search_query_on_google drv query w = (Inl e, w1)"
  shows "parse_search_results drv query w = ([(''query'', query)], add_log (LogException e) w1)"
  using assms by (simp add: parse_search_results_def bind_def)

text \<open>
  Claim C5. When the submission of a query that is not in the cache raises an exception,
  the exception is logged, the record holds the query only, and the row written has the
  query in its first field and the empty string for star score, review count and address.
  The loop then goes on with the next query.
\<close>

theorem failed_submission_row:
  assumes "dict_lookup seen query = None"
    and "search_query_on_google drv query (w\<lparr>interactions := interactions w @ [Sleep 3 5]\<rparr>)
           = (Inl e, w1)"
  shows "\<exists>seen' w'. process_query drv seen query w = (Inr seen', w')
       \<and> dict_lookup seen' query = Some [(''query'', query)]
       \<and> outfile w' = outfile w @ [[query, PStr [], PStr [], PStr []]]
       \<and> zip fieldnames (last (outfile w')) =
            [(''query'', query), (''star_score'', PStr []), (''reviews_count'', PStr []),
             (''url'', PStr [])]
       \<and> csv_row_text (last (outfile w')) =
            csv_quote (csv_field_text query) @ '';;;'' @ [CHR 0x0D, CHR 0x0A]
       \<and> logged w' = logged w1 @ [LogException e, DebugParsedResults [(''query'', query)]]
       \<and> run_queries drv seen (query # rest) w = run_queries drv seen' rest w'"
proof -
  let ?sr = "[(''query'', query)]"
  have p: "parse_search_results drv query (w\<lparr>interactions := interactions w @ [Sleep 3 5]\<rparr>)
             = (?sr, add_log (LogException e) w1)"
    by (rule parse_search_results_failed [OF assms(2)])
  have row: "row_of ?sr = [query, PStr [], PStr [], PStr []]"
    by (simp add: row_of_def fieldnames_def dict_get_def)
  have nonempty: "csv_quote (csv_field_text query) @ '';;;'' \<noteq> []"
    by simp
  have rendered: "csv_row_text [query, PStr [], PStr [], PStr []] =
      csv_quote (csv_field_text query) @ '';;;'' @ [CHR 0x0D, CHR 0x0A]"
    by (simp add: csv_row_text_def csv_quote_def needs_quotes_def)
  show ?thesis
    by (simp add: process_query_miss [OF assms(1) p] row rendered dict_lookup_append assms(1)
        py_eq_refl add_log_def fieldnames_def)
qed

text \<open>
  Claim C5 on a numeric query, which the small browser refuses to type.
\<close>

theorem failed_submission_row_witness:
  "dict_lookup [] (PInt 7) = None
   \<and> search_query_on_google (fake_driver demo_site) (PInt 7)
        ((world_at home_page)\<lparr>interactions := interactions (world_at home_page) @ [Sleep 3 5]\<rparr>)
       = (Inl TypeError,
          \<lparr>browser = home_page,
           interactions = [Sleep 3 5, FindElement search_field_xpath, Clear 0,
                           SendKeys 0 (PInt 7)],
           logged = [], outfile = []\<rparr>)
   \<and> (\<exists>seen' w'. process_query (fake_driver demo_site) [] (PInt 7) (world_at home_page)
                    = (Inr seen', w')
         \<and> outfile w' = [[PInt 7, PStr [], PStr [], PStr []]]
         \<and> run_queries (fake_driver demo_site) [] [PInt 7, PStr ''Acme Corp''] (world_at home_page)
             = run_queries (fake_driver demo_site) seen' [PStr ''Acme Corp''] w')"
proof -
  have h1: "dict_lookup [] (PInt 7) = None" by simp
  have h2: "search_query_on_google (fake_driver demo_site) (PInt 7)
        ((world_at home_page)\<lparr>interactions := interactions (world_at home_page) @ [Sleep 3 5]\<rparr>)
       = (Inl TypeError,
          \<lparr>browser = home_page,
           interactions = [Sleep 3 5, FindElement search_field_xpath, Clear 0,
                           SendKeys 0 (PInt 7)],
           logged = [], outfile = []\<rparr>)"
    by (simp add: search_query_on_google_def bind_def call_def fixture home_page_def)
  have o: "outfile (world_at home_page :: page world) = []"
    by (simp add: world_at_def)
  show ?thesis
    using failed_submission_row [OF h1 h2, of "[PStr ''Acme Corp'']"] h2
    by (simp add: o) blast
qed


lemma header_text:
  "file_text [map PStr fieldnames] = ''query;star_score;reviews_count;url'' @ [CHR 0x0D, CHR 0x0A]"
  by (simp add: file_text_def csv_row_text_def csv_quote_def needs_quotes_def fieldnames_def)

text \<open>
  Claim C10. When the extracted query list is empty and the run gets as far as the loop,
  the output file holds the header row and nothing else, the only call to the browser is
  the loading of the start page, and the process ends with status 0.
\<close>

theorem empty_query_list_run:
  assumes "input_is_file env" and "create_webdriver env = Inr b"
    and "parse_queries_from_xlsx_file (open_workbook_in_memory env) = Inr []"
    and "open_output_file env = Inr u"
    and "drv_get drv ''https://google.com'' b = (Inr (), b')"
  shows "main drv env =
     \<lparr>exit_status = 0, escaped = None, output_file = Some [map PStr fieldnames],
      run_interactions = [Get ''https://google.com''], run_log = [InfoParsed 0]\<rparr>
   \<and> file_text [map PStr fieldnames]
       = ''query;star_score;reviews_count;url'' @ [CHR 0x0D, CHR 0x0A]"
proof -
  have q: "extract_queries (open_workbook_in_memory env) = Inr []"
    by (simp add: extract_queries_def assms(3))
  have "main drv env =
     \<lparr>exit_status = 0, escaped = None, output_file = Some [map PStr fieldnames],
      run_interactions = [Get ''https://google.com''], run_log = [InfoParsed 0]\<rparr>"
    using main_run [OF assms(1,2) q assms(4,5), of "[]"] by simp
  then show ?thesis
    by (simp add: header_text)
qed

text \<open>
  Claim C10 on a workbook whose only non-empty first-column cell is the header.
\<close>

theorem empty_query_list_run_witness:
  "parse_queries_from_xlsx_file (open_workbook_in_memory (demo_environment workbook_header_only))
     = Inr []
   \<and> main (fake_driver demo_site) (demo_environment workbook_header_only) =
     \<lparr>exit_status = 0, escaped = None, output_file = Some [map PStr fieldnames],
      run_interactions = [Get ''https://google.com''], run_log = [InfoParsed 0]\<rparr>"
proof -
  have q: "parse_queries_from_xlsx_file
             (open_workbook_in_memory (demo_environment workbook_header_only)) = Inr []"
    by (simp add: demo_environment_sel parse_queries_from_xlsx_file_def sheetnames_def
        workbook_getitem_def workbook_header_only_def text_cell_def py_eq_PStr)
  show ?thesis
    using empty_query_list_run [OF demo_environment_sel(1) demo_environment_sel(2) q
        demo_environment_sel(4) demo_get] q
    by simp
qed

section \<open>A numeric zero in the first column\<close>

text \<open>
  Claim C8 at a sheet whose only row holds the number 0: the cell is neither null nor the
  empty string, and the extractor does not append it.
\<close>

theorem zero_cell_not_appended:
  "spec_row_non_empty [Some (Cell (PInt 0))]
   \<and> collect_rows [[Some (Cell (PInt 0))]] [] = []
   \<and> parse_queries_from_xlsx_file (Inr workbook_zero) = Inr []"
  by (simp add: parse_queries_from_xlsx_file_def sheetnames_def workbook_getitem_def
      workbook_zero_def)

end
